theory Spec2Isabelle
  imports Main "HOL-Library.Sublist" "HOL-Library.Word"
begin

section \<open>promlog: the settable minimum log level\<close>

text \<open>
  Source: \<^verbatim>\<open>src/promlog/log.go\<close>.  \<^verbatim>\<open>AllowedLevel\<close> is a struct with a string \<^verbatim>\<open>s\<close>
  and a go-kit filter option \<^verbatim>\<open>o\<close>.  The option is a function value of the go-kit
  library; only which of the four constructors produced it matters here, so it is a
  datatype, and the zero value of the field (a nil function) is \<open>None\<close>.
  The field names carry the prefix \<open>al_\<close> because \<open>o\<close> is function composition in HOL.
\<close>

datatype level_Option = AllowDebug | AllowInfo | AllowWarn | AllowError

record AllowedLevel =
  al_s :: string
  al_o :: "level_Option option"

text \<open>
  The error of \<^verbatim>\<open>fmt.Errorf("unrecognized log level %q", s)\<close>: the format is fixed and
  the only argument is the rejected string, which the error value keeps.
\<close>

datatype log_error = unrecognized_log_level string

text \<open>
  \<^verbatim>\<open>func (l *AllowedLevel) Set(s string) error\<close> mutates the receiver and returns an
  error or nil.  The model returns the receiver after the call together with the error
  (\<open>None\<close> for nil).  The \<^verbatim>\<open>default\<close> branch returns before any field is assigned.
\<close>

definition AllowedLevel_Set :: "AllowedLevel \<Rightarrow> string \<Rightarrow> AllowedLevel \<times> log_error option" where
  "AllowedLevel_Set l s =
     (if s = ''debug'' then (l\<lparr>al_o := Some AllowDebug, al_s := s\<rparr>, None)
      else if s = ''info'' then (l\<lparr>al_o := Some AllowInfo, al_s := s\<rparr>, None)
      else if s = ''warn'' then (l\<lparr>al_o := Some AllowWarn, al_s := s\<rparr>, None)
      else if s = ''error'' then (l\<lparr>al_o := Some AllowError, al_s := s\<rparr>, None)
      else (l, Some (unrecognized_log_level s)))"

section \<open>Properties of the log level\<close>

text \<open>
  C10.  \<^verbatim>\<open>AllowedLevel.Set\<close> returns no error exactly for the four strings
  "debug", "info", "warn" and "error"; for every other string it returns the error
  that carries the rejected string and leaves the receiver (string and option)
  as it was.  On success the string is stored together with the matching option.
\<close>

theorem AllowedLevel_Set_accepts_exactly_four:
  "(snd (AllowedLevel_Set l s) = None \<longleftrightarrow> s \<in> {''debug'', ''info'', ''warn'', ''error''})
   \<and> (s \<notin> {''debug'', ''info'', ''warn'', ''error''} \<longrightarrow>
        AllowedLevel_Set l s = (l, Some (unrecognized_log_level s)))
   \<and> (s \<in> {''debug'', ''info'', ''warn'', ''error''} \<longrightarrow>
        al_s (fst (AllowedLevel_Set l s)) = s
        \<and> al_o (fst (AllowedLevel_Set l s)) =
            Some (if s = ''debug'' then AllowDebug else if s = ''info'' then AllowInfo
                  else if s = ''warn'' then AllowWarn else AllowError))"
  by (simp add: AllowedLevel_Set_def)

theorem AllowedLevel_Set_accepts_exactly_four_witness:
  "snd (AllowedLevel_Set \<lparr>al_s = ''info'', al_o = Some AllowInfo\<rparr> ''warn'') = None
   \<and> AllowedLevel_Set \<lparr>al_s = ''info'', al_o = Some AllowInfo\<rparr> ''warning''
       = (\<lparr>al_s = ''info'', al_o = Some AllowInfo\<rparr>, Some (unrecognized_log_level ''warning''))
   \<and> al_s (fst (AllowedLevel_Set \<lparr>al_s = ''info'', al_o = Some AllowInfo\<rparr> ''warn'')) = ''warn''
   \<and> al_o (fst (AllowedLevel_Set \<lparr>al_s = ''info'', al_o = Some AllowInfo\<rparr> ''warn'')) = Some AllowWarn"
  using AllowedLevel_Set_accepts_exactly_four
          [of "\<lparr>al_s = ''info'', al_o = Some AllowInfo\<rparr>" "''warn''"]
        AllowedLevel_Set_accepts_exactly_four
          [of "\<lparr>al_s = ''info'', al_o = Some AllowInfo\<rparr>" "''warning''"]
  by simp

end
